theory Spec2Isabelle
  imports
    Main
    "HOL-Library.Char_ord"
    "HOL-Library.List_Lexorder"
    "HOL-Library.Multiset"
    "HOL-Library.FSet"
begin

section \<open>Profile recorder: a shallow embedding of profilerecorder.go\<close>

text \<open>
  Go strings are byte sequences and are modelled as \<^typ>\<open>string\<close> (lists of 8-bit
  characters). \<open>sort.Strings\<close> orders strings bytewise and lexicographically, which is
  the order of \<^typ>\<open>char list\<close> given by the two library theories imported above, so
  \<^const>\<open>sort\<close> stands for it. Calls of the logger are not modelled; every other effect
  is.
\<close>

subsection \<open>Errors\<close>

text \<open>
  Errors are built with \<open>errors.New\<close>, \<open>errors.Errorf\<close>, \<open>errors.Wrap\<close> and
  \<open>errors.Wrapf\<close>. An error value keeps its format string and the arguments of the format,
  and a wrapped error keeps its cause. A run-time panic is an error value of its own.
\<close>

datatype error =
    Errorf string "string list"
  | Wrapf error string "string list"
  | Panic string

abbreviation New :: "string \<Rightarrow> error" where
  "New msg \<equiv> Errorf msg []"

abbreviation Wrap :: "error \<Rightarrow> string \<Rightarrow> error" where
  "Wrap err msg \<equiv> Wrapf err msg []"

text \<open>
  A panic is not returned: it unwinds through the callers, so no caller wraps it.
\<close>

definition passPanic :: "error \<Rightarrow> error \<Rightarrow> error" where
  "passPanic err wrapped = (case err of Panic m \<Rightarrow> err | _ \<Rightarrow> wrapped)"

subsection \<open>String functions of the standard library\<close>

text \<open>
  \<open>strings.Split(s, sep)\<close> for a separator of one byte: the parts between the
  separators, one more part than there are separators. \<open>cur\<close> is the part being read.
\<close>

fun Split_from :: "string \<Rightarrow> string \<Rightarrow> char \<Rightarrow> string list" where
  "Split_from cur [] sep = [cur]"
| "Split_from cur (c # cs) sep =
     (if c = sep then cur # Split_from [] cs sep else Split_from (cur @ [c]) cs sep)"

definition Split :: "string \<Rightarrow> char \<Rightarrow> string list" where
  "Split s sep = Split_from [] s sep"

text \<open>\<open>strings.Join(elems, sep)\<close>.\<close>

fun Join :: "string list \<Rightarrow> string \<Rightarrow> string" where
  "Join [] sep = []"
| "Join [x] sep = x"
| "Join (x # y # ys) sep = x @ sep @ Join (y # ys) sep"

text \<open>
  \<open>strings.LastIndex(s, substr)\<close> for a substring of one byte: the index of its last
  occurrence, or \<open>-1\<close>.
\<close>

fun LastIndex :: "string \<Rightarrow> char \<Rightarrow> int" where
  "LastIndex [] c = - 1"
| "LastIndex (x # xs) c =
     (let i = LastIndex xs c
      in if i \<noteq> - 1 then i + 1 else if x = c then 0 else - 1)"

definition HasPrefix :: "string \<Rightarrow> string \<Rightarrow> bool" where
  "HasPrefix s pre = (length pre \<le> length s \<and> take (length pre) s = pre)"

definition TrimPrefix :: "string \<Rightarrow> string \<Rightarrow> string" where
  "TrimPrefix s pre = (if HasPrefix s pre then drop (length pre) s else s)"

text \<open>\<open>filepath.IsAbs\<close> and \<open>filepath.Base\<close> on a Unix path.\<close>

definition IsAbs :: "string \<Rightarrow> bool" where
  "IsAbs path = HasPrefix path ''/''"

definition Base :: "string \<Rightarrow> string" where
  "Base path =
     (if path = [] then ''.''
      else
        let stripped = rev (dropWhile (\<lambda>c. c = CHR ''/'') (rev path));
            element = rev (takeWhile (\<lambda>c. c \<noteq> CHR ''/'') (rev stripped))
        in if element = [] then ''/'' else element)"

subsection \<open>Constants of package config\<close>

text \<open>
  The constants of package \<open>config\<close> are declared outside the source at hand; the
  functions take them as a parameter. \<open>SelinuxPermissiveProfile\<close> is the sentinel that
  marks the type of a permissive profile.
\<close>

record config =
  SeccompProfileRecordHookAnnotationKey :: string
  SeccompProfileRecordLogsAnnotationKey :: string
  SelinuxProfileRecordLogsAnnotationKey :: string
  ProfileRecordingOutputPath :: string
  SelinuxPermissiveProfile :: string

subsection \<open>The SELinux policy builder\<close>

record SelinuxAvc =
  Perm :: string
  Tclass :: string
  Scontext :: string
  Tcontext :: string

text \<open>
  \<open>permMap\<close> is a Go map from keys to string sets; a missing key reads as the nil set,
  which is \<open>None\<close> here. \<open>policyBuilder\<close> is the text written so far.
\<close>

record seProfileBuilder =
  permMap :: "string \<rightharpoonup> string fset"
  keys :: "string list"
  usageCtx :: string
  policyBuilder :: string

definition seContextRequiredParts :: nat where
  "seContextRequiredParts = 3"

definition newSeProfileBuilder :: "string \<Rightarrow> seProfileBuilder" where
  "newSeProfileBuilder usage =
     \<lparr>permMap = Map.empty, keys = [], usageCtx = usage, policyBuilder = []\<rparr>"

definition ctxt2type :: "string \<Rightarrow> error + string" where
  "ctxt2type ctx =
     (let elems = Split ctx (CHR '':'')
      in if length elems < seContextRequiredParts
         then Inl (New ''Malformed SELinux context'')
         else Inr (elems ! 2))"

text \<open>
  The methods of the builder mutate it; they return the builder next to their result.
\<close>

definition addAvc :: "seProfileBuilder \<Rightarrow> SelinuxAvc \<Rightarrow> error option \<times> seProfileBuilder" where
  "addAvc sb avc =
     (case ctxt2type (Tcontext avc) of
        Inl err \<Rightarrow> (Some (Wrap err ''converting context to type''), sb)
      | Inr ctxType \<Rightarrow>
          let key = Tclass avc @ '' '' @ ctxType;
              sb1 = sb\<lparr>keys := keys sb @ [key]\<rparr>
          in (case permMap sb1 key of
                Some perms \<Rightarrow>
                  (None, sb1\<lparr>permMap := (permMap sb1)(key \<mapsto> finsert (Perm avc) perms)\<rparr>)
              | None \<Rightarrow>
                  (None, sb1\<lparr>permMap := (permMap sb1)(key \<mapsto> {|Perm avc|})\<rparr>)))"

fun AddAvcList :: "seProfileBuilder \<Rightarrow> SelinuxAvc list \<Rightarrow> error option \<times> seProfileBuilder" where
  "AddAvcList sb [] = (None, sb)"
| "AddAvcList sb (avc # avcs) =
     (case addAvc sb avc of
        (Some err, sb1) \<Rightarrow> (Some (Wrap err ''adding AVC''), sb1)
      | (None, sb1) \<Rightarrow> AddAvcList sb1 avcs)"

text \<open>
  \<open>targetClassCtx\<close> reads \<open>splitkey[0]\<close> and \<open>splitkey[1]\<close>; on a key without a
  space the second read is out of range and the program panics, which is the error
  result here.
\<close>

definition targetClassCtx ::
  "config \<Rightarrow> seProfileBuilder \<Rightarrow> string \<Rightarrow> error + (string \<times> string)" where
  "targetClassCtx cfg sb key =
     (let splitkey = Split key (CHR '' '')
      in if length splitkey < 2 then Inl (Panic ''index out of range'')
         else
           let tclass = splitkey ! 0;
               tcontext = splitkey ! 1
           in if tcontext = SelinuxPermissiveProfile cfg
              then Inr (tclass, usageCtx sb)
              else Inr (tclass, tcontext))"

text \<open>
  \<open>perms.List()\<close> returns the members of the set as a sorted slice, which
  \<open>sort.Strings\<close> then sorts again.
\<close>

definition policyLine :: "string \<Rightarrow> string \<Rightarrow> string fset option \<Rightarrow> error + string" where
  "policyLine tclass tcontext perms =
     (case perms of
        None \<Rightarrow> Inl (New ''nil permissions set or no permissions'')
      | Some ps \<Rightarrow>
          if fcard ps = 0 then Inl (New ''nil permissions set or no permissions'')
          else
            let permsList = sort (sorted_list_of_fset ps)
            in Inr (''(allow process '' @ tcontext @ '' ( '' @ tclass @ '' ( ''
                    @ Join permsList '' '' @ '' )))'' @ [CHR 0x0A]))"

definition writeLineFromKeyVal ::
  "config \<Rightarrow> seProfileBuilder \<Rightarrow> string \<Rightarrow> string fset option \<Rightarrow>
   error option \<times> seProfileBuilder" where
  "writeLineFromKeyVal cfg sb key val =
     (case targetClassCtx cfg sb key of
        Inl panic \<Rightarrow> (Some panic, sb)
      | Inr (tclass, tcontext) \<Rightarrow>
          if tclass = [] \<or> tcontext = [] then (Some (New ''empty context or class''), sb)
          else (case policyLine tclass tcontext val of
                  Inl err \<Rightarrow> (Some (Wrap err ''writing policy line''), sb)
                | Inr line \<Rightarrow> (None, sb\<lparr>policyBuilder := policyBuilder sb @ line\<rparr>)))"

text \<open>The loop of \<open>Format\<close> over the sorted keys.\<close>

fun Format_keys ::
  "config \<Rightarrow> seProfileBuilder \<Rightarrow> string list \<Rightarrow> (error + string) \<times> seProfileBuilder" where
  "Format_keys cfg sb [] = (Inr (policyBuilder sb), sb)"
| "Format_keys cfg sb (key # rest) =
     (let val = permMap sb key
      in (case writeLineFromKeyVal cfg sb key val of
            (Some err, sb1) \<Rightarrow>
              (Inl (passPanic err (Wrap err ''writing policy line from key-value pair'')), sb1)
          | (None, sb1) \<Rightarrow> Format_keys cfg sb1 rest))"

definition Format :: "config \<Rightarrow> seProfileBuilder \<Rightarrow> (error + string) \<times> seProfileBuilder" where
  "Format cfg sb =
     (let sb1 = sb\<lparr>policyBuilder := policyBuilder sb @ ''(blockinherit container)'' @ [CHR 0x0A]\<rparr>;
          sb2 = sb1\<lparr>keys := sort (keys sb1)\<rparr>
      in Format_keys cfg sb2 (keys sb2))"

subsection \<open>Profile names and annotations\<close>

definition extractProfileName :: "string \<Rightarrow> error + string" where
  "extractProfileName s =
     (let lastIndex = LastIndex s (CHR ''-'')
      in if lastIndex = - 1 then Inl (Errorf ''malformed profile path: %s'' [s])
         else Inr (take (nat lastIndex) s))"

datatype ProfileRecordingKind =
    ProfileRecordingKindSeccompProfile
  | ProfileRecordingKindSelinuxProfile
  | ProfileRecordingKindOther string

datatype ProfileRecorder =
    ProfileRecorderHook
  | ProfileRecorderLogs
  | ProfileRecorderOther string

record profileToCollect =
  kind :: ProfileRecordingKind
  name :: string

record podToWatch =
  recorder :: ProfileRecorder
  profiles :: "profileToCollect list"

definition errInvalidAnnotation :: string where
  "errInvalidAnnotation = ''invalid Annotation''"

definition errGetPod :: string where
  "errGetPod = ''cannot get pod''"

definition reasonProfileRecording :: string where
  "reasonProfileRecording = ''SeccompProfileRecording''"

definition reasonProfileCreated :: string where
  "reasonProfileCreated = ''SeccompProfileCreated''"

definition reasonProfileCreationFailed :: string where
  "reasonProfileCreationFailed = ''CannotCreateSeccompProfile''"

definition reasonAnnotationParsing :: string where
  "reasonAnnotationParsing = ''SeccompAnnotationParsing''"

text \<open>
  The annotations of a pod are a Go map, and a \<open>range\<close> over a map visits its entries
  in an unspecified order. The list of pairs given to the two parsers is the order of that
  visit; nothing is assumed about it. \<open>res\<close> is the slice built so far, and
  \<open>trimSpace\<close> stands for \<open>strings.TrimSpace\<close>, which is taken as a parameter.
\<close>

fun parseHookAnnotations_range ::
  "config \<Rightarrow> (string \<Rightarrow> string) \<Rightarrow> profileToCollect list \<Rightarrow> (string \<times> string) list \<Rightarrow>
   error + profileToCollect list" where
  "parseHookAnnotations_range cfg trimSpace res [] = Inr res"
| "parseHookAnnotations_range cfg trimSpace res ((key, val) # rest) =
     (if \<not> HasPrefix key (SeccompProfileRecordHookAnnotationKey cfg)
      then parseHookAnnotations_range cfg trimSpace res rest
      else if \<not> HasPrefix val ''of:''
      then Inl (Wrapf (New errInvalidAnnotation) ''must start with %q prefix'' [''of:''])
      else
        let outputFile = trimSpace (TrimPrefix val ''of:'')
        in if \<not> IsAbs outputFile
           then Inl (Wrapf (New errInvalidAnnotation)
                       ''output file path must be absolute: %q'' [outputFile])
           else if outputFile = []
           then Inl (Wrap (New errInvalidAnnotation) ''providing output file is mandatory'')
           else if \<not> HasPrefix outputFile (ProfileRecordingOutputPath cfg)
           then parseHookAnnotations_range cfg trimSpace res rest
           else parseHookAnnotations_range cfg trimSpace
                  (res @ [\<lparr>kind = ProfileRecordingKindSeccompProfile, name = outputFile\<rparr>])
                  rest)"

definition parseHookAnnotations ::
  "config \<Rightarrow> (string \<Rightarrow> string) \<Rightarrow> (string \<times> string) list \<Rightarrow>
   error + profileToCollect list" where
  "parseHookAnnotations cfg trimSpace annotations =
     parseHookAnnotations_range cfg trimSpace [] annotations"

fun parseLogAnnotations_range ::
  "config \<Rightarrow> profileToCollect list \<Rightarrow> (string \<times> string) list \<Rightarrow>
   error + profileToCollect list" where
  "parseLogAnnotations_range cfg res [] = Inr res"
| "parseLogAnnotations_range cfg res ((key, profile) # rest) =
     (if HasPrefix key (SeccompProfileRecordLogsAnnotationKey cfg)
      then (if profile = []
            then Inl (Wrap (New errInvalidAnnotation) ''providing output profile is mandatory'')
            else parseLogAnnotations_range cfg
                   (res @ [\<lparr>kind = ProfileRecordingKindSeccompProfile, name = profile\<rparr>]) rest)
      else if HasPrefix key (SelinuxProfileRecordLogsAnnotationKey cfg)
      then (if profile = []
            then Inl (Wrap (New errInvalidAnnotation) ''providing output profile is mandatory'')
            else parseLogAnnotations_range cfg
                   (res @ [\<lparr>kind = ProfileRecordingKindSelinuxProfile, name = profile\<rparr>]) rest)
      else parseLogAnnotations_range cfg res rest)"

definition parseLogAnnotations ::
  "config \<Rightarrow> (string \<times> string) list \<Rightarrow> error + profileToCollect list" where
  "parseLogAnnotations cfg annotations = parseLogAnnotations_range cfg [] annotations"

subsection \<open>The reconciler and the world around it\<close>

record NamespacedName =
  Namespace :: string
  Name :: string

text \<open>\<open>NamespacedName.String()\<close> joins namespace and name with a slash.\<close>

definition String :: "NamespacedName \<Rightarrow> string" where
  "String n = Namespace n @ ''/'' @ Name n"

datatype PodPhase =
    PodPending | PodRunning | PodSucceeded | PodFailed | PodUnknown | PodPhaseUnset

record Pod =
  Phase :: PodPhase
  Annotations :: "(string \<times> string) list"

text \<open>
  What \<open>client.Get\<close> answers for the requested pod: the pod, a not-found error, or
  another error.
\<close>

datatype GetResult = Found Pod | NotFound error | GetFailed error

text \<open>
  The objects that events are recorded against and that are written to the cluster, each
  with namespace and name; the specification written into a profile.
\<close>

datatype object =
    PodObject string string
  | SeccompProfileObject string string
  | SelinuxProfileObject string string

datatype ProfileSpec =
    SeccompSpecFromJSON string
  | SeccompSpecAllow "string list"
  | SelinuxSpecPolicy string

datatype k8s_event = Normal string string | Warning string error

text \<open>
  Every call that leaves the process is logged in a trace together with its answer:
  events on the recorder, reading a file, the cluster client, and the calls to the
  enricher (dialling, the deferred closing of the connection, and its four methods).
\<close>

datatype effect =
    RecordEvent object k8s_event
  | ReadFileCall string "error + string"
  | GetSPODCall "error + bool"
  | DialCall "error option"
  | CancelCall
  | SyscallsCall string "error + string list"
  | ResetSyscallsCall string "error option"
  | AvcsCall string "error + SelinuxAvc list"
  | ResetAvcsCall string "error option"
  | CreateOrUpdateCall object ProfileSpec "error + string"

text \<open>
  The cluster client, the file system and the enricher are not part of the source. They
  answer a call with a result that may depend on everything that happened before: each is
  a function of the trace so far. \<open>strings.TrimSpace\<close> and the method
  \<open>GetPolicyUsage\<close> of a SelinuxProfile (a function of its name and namespace) are
  taken as parameters as well. \<open>clientGetSPOD\<close> answers with the field
  \<open>EnableLogEnricher\<close> of the daemon configuration. \<open>CreateOrUpdate\<close> runs the
  mutation of the caller, which sets the given specification (for a hook profile, by
  unmarshalling the JSON text), and answers with the operation it performed.
\<close>

record world =
  TrimSpace :: "string \<Rightarrow> string"
  GetPolicyUsage :: "string \<Rightarrow> string \<Rightarrow> string"
  ReadFile :: "effect list \<Rightarrow> string \<Rightarrow> error + string"
  clientGetSPOD :: "effect list \<Rightarrow> error + bool"
  Dial :: "effect list \<Rightarrow> error option"
  Syscalls :: "effect list \<Rightarrow> string \<Rightarrow> error + string list"
  ResetSyscalls :: "effect list \<Rightarrow> string \<Rightarrow> error option"
  Avcs :: "effect list \<Rightarrow> string \<Rightarrow> error + SelinuxAvc list"
  ResetAvcs :: "effect list \<Rightarrow> string \<Rightarrow> error option"
  CreateOrUpdate :: "effect list \<Rightarrow> object \<Rightarrow> ProfileSpec \<Rightarrow> error + string"

text \<open>
  \<open>podsToWatch\<close> is a \<open>sync.Map\<close>, whose values are of any type; the reconciler only
  ever stores a \<open>podToWatch\<close>. The trace stands for the client, the event recorder and
  the enricher connection.
\<close>

datatype any = AnyPodToWatch podToWatch | AnyOther

record RecorderReconciler =
  nodeAddresses :: "string list"
  podsToWatch :: "string \<rightharpoonup> any"
  trace :: "effect list"

definition emit :: "RecorderReconciler \<Rightarrow> effect \<Rightarrow> RecorderReconciler" where
  "emit r e = r\<lparr>trace := trace r @ [e]\<rparr>"

definition objNamespace :: "object \<Rightarrow> string" where
  "objNamespace obj =
     (case obj of
        PodObject ns n \<Rightarrow> ns
      | SeccompProfileObject ns n \<Rightarrow> ns
      | SelinuxProfileObject ns n \<Rightarrow> ns)"

definition objName :: "object \<Rightarrow> string" where
  "objName obj =
     (case obj of
        PodObject ns n \<Rightarrow> n
      | SeccompProfileObject ns n \<Rightarrow> n
      | SelinuxProfileObject ns n \<Rightarrow> n)"

definition formatSelinuxProfile ::
  "config \<Rightarrow> world \<Rightarrow> object \<Rightarrow> SelinuxAvc list \<Rightarrow> error + string" where
  "formatSelinuxProfile cfg w selinuxprofile avcs =
     (let usage = GetPolicyUsage w (objName selinuxprofile) (objNamespace selinuxprofile);
          seBuilder = newSeProfileBuilder usage
      in (case AddAvcList seBuilder avcs of
            (Some err, seBuilder1) \<Rightarrow> Inl (Wrap err ''consuming AVCs'')
          | (None, seBuilder1) \<Rightarrow>
              (case Format cfg seBuilder1 of
                 (Inl err, seBuilder2) \<Rightarrow> Inl (passPanic err (Wrap err ''building policy''))
               | (Inr sePol, seBuilder2) \<Rightarrow> Inr sePol)))"

definition collectLogSeccompProfile ::
  "world \<Rightarrow> RecorderReconciler \<Rightarrow> string \<Rightarrow> string \<Rightarrow> string \<Rightarrow>
   error option \<times> RecorderReconciler" where
  "collectLogSeccompProfile w r profileName namespace profileID =
     (let response = Syscalls w (trace r) profileID;
          r1 = emit r (SyscallsCall profileID response)
      in (case response of
            Inl err \<Rightarrow> (Some (Wrapf err ''retrieve syscalls for profile %s'' [profileID]), r1)
          | Inr syscalls \<Rightarrow>
              (let profile = SeccompProfileObject namespace profileName;
                   profileSpec = SeccompSpecAllow syscalls;
                   res = CreateOrUpdate w (trace r1) profile profileSpec;
                   r2 = emit r1 (CreateOrUpdateCall profile profileSpec res)
               in (case res of
                     Inl err \<Rightarrow>
                       (Some (Wrap err ''create seccompProfile resource''),
                        emit r2 (RecordEvent profile (Warning reasonProfileCreationFailed err)))
                   | Inr action \<Rightarrow>
                       (let r3 = emit r2 (RecordEvent profile
                                    (Normal reasonProfileCreated ''seccomp profile created''));
                            reset = ResetSyscalls w (trace r3) profileID;
                            r4 = emit r3 (ResetSyscallsCall profileID reset)
                        in (case reset of
                              Some err \<Rightarrow>
                                (Some (Wrapf err ''reset syscalls for profile %s'' [profileID]), r4)
                            | None \<Rightarrow> (None, r4)))))))"

definition collectLogSelinuxProfile ::
  "config \<Rightarrow> world \<Rightarrow> RecorderReconciler \<Rightarrow> string \<Rightarrow> string \<Rightarrow> string \<Rightarrow>
   error option \<times> RecorderReconciler" where
  "collectLogSelinuxProfile cfg w r profileName namespace profileID =
     (let response = Avcs w (trace r) profileID;
          r1 = emit r (AvcsCall profileID response)
      in (case response of
            Inl err \<Rightarrow> (Some (Wrapf err ''retrieve avcs for profile %s'' [profileID]), r1)
          | Inr avcs \<Rightarrow>
              (let profile = SelinuxProfileObject namespace profileName
               in (case formatSelinuxProfile cfg w profile avcs of
                     Inl (Panic m) \<Rightarrow> (Some (Panic m), r1)
                   | Inl err \<Rightarrow>
                       (Some (Wrap err ''format selinuxprofile resource''),
                        emit r1 (RecordEvent profile (Warning reasonProfileCreationFailed err)))
                   | Inr policy \<Rightarrow>
                       (let selinuxProfileSpec = SelinuxSpecPolicy policy;
                            res = CreateOrUpdate w (trace r1) profile selinuxProfileSpec;
                            r2 = emit r1 (CreateOrUpdateCall profile selinuxProfileSpec res)
                        in (case res of
                              Inl err \<Rightarrow>
                                (Some (Wrap err ''create selinuxprofile resource''),
                                 emit r2 (RecordEvent profile
                                            (Warning reasonProfileCreationFailed err)))
                            | Inr action \<Rightarrow>
                                (let r3 = emit r2 (RecordEvent profile
                                             (Normal reasonProfileCreated
                                                ''selinuxprofile profile created''));
                                     reset = ResetAvcs w (trace r3) profileID;
                                     r4 = emit r3 (ResetAvcsCall profileID reset)
                                 in (case reset of
                                       Some err \<Rightarrow>
                                         (Some (Wrapf err ''reset selinuxprofile for profile %s''
                                                  [profileName]), r4)
                                     | None \<Rightarrow> (None, r4)))))))))"

definition getSPOD :: "world \<Rightarrow> RecorderReconciler \<Rightarrow> (error + bool) \<times> RecorderReconciler" where
  "getSPOD w r =
     (let spod = clientGetSPOD w (trace r)
      in (spod, emit r (GetSPODCall spod)))"

text \<open>The loop of \<open>collectLocalProfiles\<close> over the profiles of a pod.\<close>

fun collectLocalProfiles ::
  "world \<Rightarrow> RecorderReconciler \<Rightarrow> NamespacedName \<Rightarrow> profileToCollect list \<Rightarrow>
   error option \<times> RecorderReconciler" where
  "collectLocalProfiles w r n [] = (None, r)"
| "collectLocalProfiles w r n (prf # rest) =
     (let profilePath = name prf
      in if kind prf \<noteq> ProfileRecordingKindSeccompProfile
         then (Some (New ''only seccomp profiles supported via a hook''), r)
         else
           (let read = ReadFile w (trace r) profilePath;
                r1 = emit r (ReadFileCall profilePath read)
            in (case read of
                  Inl err \<Rightarrow> (Some (Wrap err ''read profile''), r1)
                | Inr data \<Rightarrow>
                    (case extractProfileName (Base profilePath) of
                       Inl err \<Rightarrow> (Some (Wrap err ''extract profile name''), r1)
                     | Inr profileName \<Rightarrow>
                         (let profile = SeccompProfileObject (Namespace n) profileName;
                              spec = SeccompSpecFromJSON data;
                              res = CreateOrUpdate w (trace r1) profile spec;
                              r2 = emit r1 (CreateOrUpdateCall profile spec res)
                          in (case res of
                                Inl err \<Rightarrow>
                                  (Some (Wrap err ''create seccompProfile resource''),
                                   emit r2 (RecordEvent profile
                                              (Warning reasonProfileCreationFailed err)))
                              | Inr action \<Rightarrow>
                                  collectLocalProfiles w
                                    (emit r2 (RecordEvent profile
                                                (Normal reasonProfileCreated
                                                   ''seccomp profile created'')))
                                    n rest))))))"

text \<open>
  The loop of \<open>collectLogProfiles\<close> over the profiles, which runs once the connection
  to the enricher is open.
\<close>

fun collectLogProfiles_range ::
  "config \<Rightarrow> world \<Rightarrow> RecorderReconciler \<Rightarrow> NamespacedName \<Rightarrow> profileToCollect list \<Rightarrow>
   error option \<times> RecorderReconciler" where
  "collectLogProfiles_range cfg w r n [] = (None, r)"
| "collectLogProfiles_range cfg w r n (prf # rest) =
     (case extractProfileName (name prf) of
        Inl err \<Rightarrow> (Some (Wrap err ''extract profile name''), r)
      | Inr profileName \<Rightarrow>
          (case (case kind prf of
                   ProfileRecordingKindSeccompProfile \<Rightarrow>
                     collectLogSeccompProfile w r profileName (Namespace n) (name prf)
                 | ProfileRecordingKindSelinuxProfile \<Rightarrow>
                     collectLogSelinuxProfile cfg w r profileName (Namespace n) (name prf)
                 | ProfileRecordingKindOther k \<Rightarrow>
                     (Some (Errorf ''unrecognized kind %s'' [k]), r)) of
             (Some err, r1) \<Rightarrow> (Some err, r1)
           | (None, r1) \<Rightarrow> collectLogProfiles_range cfg w r1 n rest))"

text \<open>
  \<open>collectLogProfiles\<close> defers closing the connection, which therefore happens on
  every way out of the loop.
\<close>

definition collectLogProfiles ::
  "config \<Rightarrow> world \<Rightarrow> RecorderReconciler \<Rightarrow> NamespacedName \<Rightarrow> profileToCollect list \<Rightarrow>
   error option \<times> RecorderReconciler" where
  "collectLogProfiles cfg w r n prfs =
     (case getSPOD w r of
        (Inl err, r1) \<Rightarrow> (Some (Wrap err ''getting SPOD config''), r1)
      | (Inr enableLogEnricher, r1) \<Rightarrow>
          if \<not> enableLogEnricher then (Some (New ''log enricher not enabled''), r1)
          else
            (let dial = Dial w (trace r1);
                 r2 = emit r1 (DialCall dial)
             in (case dial of
                   Some err \<Rightarrow> (Some (Wrap err ''connecting to local GRPC server''), r2)
                 | None \<Rightarrow>
                     (case collectLogProfiles_range cfg w r2 n prfs of
                        (res, r3) \<Rightarrow> (res, emit r3 CancelCall)))))"

definition collectProfile ::
  "config \<Rightarrow> world \<Rightarrow> RecorderReconciler \<Rightarrow> NamespacedName \<Rightarrow>
   error option \<times> RecorderReconciler" where
  "collectProfile cfg w r nn =
     (let n = String nn
      in (case podsToWatch r n of
            None \<Rightarrow> (None, r)
          | Some AnyOther \<Rightarrow> (Some (New ''type assert pod to watch''), r)
          | Some (AnyPodToWatch podToWatch) \<Rightarrow>
              (case (if recorder podToWatch = ProfileRecorderHook
                     then collectLocalProfiles w r nn (profiles podToWatch)
                     else (None, r)) of
                 (Some err, r1) \<Rightarrow> (Some (passPanic err (Wrap err ''collect local profile'')), r1)
               | (None, r1) \<Rightarrow>
                   (case (if recorder podToWatch = ProfileRecorderLogs
                          then collectLogProfiles cfg w r1 nn (profiles podToWatch)
                          else (None, r1)) of
                      (Some err, r2) \<Rightarrow>
                        (Some (passPanic err (Wrap err ''collect log profile'')), r2)
                    | (None, r2) \<Rightarrow>
                        (None, r2\<lparr>podsToWatch := (podsToWatch r2)(n := None)\<rparr>)))))"

text \<open>
  \<open>Reconcile\<close> is given the answer of \<open>client.Get\<close> for the requested pod. After a
  not-found answer it goes on with the empty pod, whose phase is unset. The block for a
  pending pod either returns or falls through to the block for a succeeded pod.
\<close>

definition Reconcile_pending ::
  "config \<Rightarrow> world \<Rightarrow> RecorderReconciler \<Rightarrow> NamespacedName \<Rightarrow> Pod \<Rightarrow>
   (error option \<times> RecorderReconciler) + RecorderReconciler" where
  "Reconcile_pending cfg w r req pod =
     (if podsToWatch r (String req) \<noteq> None then Inl (None, r)
      else
        (case parseHookAnnotations cfg (TrimSpace w) (Annotations pod) of
           Inl err \<Rightarrow>
             Inl (None, emit r (RecordEvent (PodObject (Namespace req) (Name req))
                                  (Warning reasonAnnotationParsing err)))
         | Inr hookProfiles \<Rightarrow>
             (case parseLogAnnotations cfg (Annotations pod) of
                Inl err \<Rightarrow>
                  Inl (None, emit r (RecordEvent (PodObject (Namespace req) (Name req))
                                       (Warning reasonAnnotationParsing err)))
              | Inr logProfiles \<Rightarrow>
                  (case (if length hookProfiles > 0
                         then Some (hookProfiles, ProfileRecorderHook)
                         else if length logProfiles > 0
                         then Some (logProfiles, ProfileRecorderLogs)
                         else None) of
                     None \<Rightarrow> Inl (None, r)
                   | Some (prfs, rec) \<Rightarrow>
                       (let r1 = r\<lparr>podsToWatch := (podsToWatch r)
                                   (String req \<mapsto>
                                      AnyPodToWatch \<lparr>recorder = rec, profiles = prfs\<rparr>)\<rparr>
                        in Inr (emit r1 (RecordEvent (PodObject (Namespace req) (Name req))
                                           (Normal reasonProfileRecording
                                              ''Recording profiles''))))))))"

definition Reconcile_pod ::
  "config \<Rightarrow> world \<Rightarrow> RecorderReconciler \<Rightarrow> NamespacedName \<Rightarrow> Pod \<Rightarrow>
   error option \<times> RecorderReconciler" where
  "Reconcile_pod cfg w r req pod =
     (case (if Phase pod = PodPending then Reconcile_pending cfg w r req pod else Inr r) of
        Inl returned \<Rightarrow> returned
      | Inr r1 \<Rightarrow>
          if Phase pod = PodSucceeded
          then (case collectProfile cfg w r1 req of
                  (Some err, r2) \<Rightarrow>
                    (Some (passPanic err (Wrap err ''collect profile for succeeded pod'')), r2)
                | (None, r2) \<Rightarrow> (None, r2))
          else (None, r1))"

definition Reconcile ::
  "config \<Rightarrow> world \<Rightarrow> RecorderReconciler \<Rightarrow> NamespacedName \<Rightarrow> GetResult \<Rightarrow>
   error option \<times> RecorderReconciler" where
  "Reconcile cfg w r req got =
     (case got of
        Found pod \<Rightarrow> Reconcile_pod cfg w r req pod
      | NotFound err \<Rightarrow>
          (case collectProfile cfg w r req of
             (Some err1, r1) \<Rightarrow>
               (Some (passPanic err1 (Wrap err1 ''collect profile for removed pod'')), r1)
           | (None, r1) \<Rightarrow>
               Reconcile_pod cfg w r1 req \<lparr>Phase = PodPhaseUnset, Annotations = []\<rparr>)
      | GetFailed err \<Rightarrow> (Some (Wrap err errGetPod), r))"

subsection \<open>Reading a trace\<close>

text \<open>
  A reset asks the enricher to forget a recording; a write is a create-or-update that the
  cluster accepted; a failure is a snapshot or a create-or-update answered with an error.
  In a trace where resets follow writes, every reset has an accepted write before it.
\<close>

fun isReset :: "effect \<Rightarrow> bool" where
  "isReset (ResetSyscallsCall p res) = True"
| "isReset (ResetAvcsCall p res) = True"
| "isReset e = False"

fun isWritten :: "effect \<Rightarrow> bool" where
  "isWritten (CreateOrUpdateCall obj spec (Inr action)) = True"
| "isWritten e = False"

fun isFailure :: "effect \<Rightarrow> bool" where
  "isFailure (SyscallsCall p (Inl err)) = True"
| "isFailure (AvcsCall p (Inl err)) = True"
| "isFailure (CreateOrUpdateCall obj spec (Inl err)) = True"
| "isFailure e = False"

definition resetAfterWrite :: "effect list \<Rightarrow> bool" where
  "resetAfterWrite es =
     (\<forall>i < length es. isReset (es ! i) \<longrightarrow> (\<exists>j < i. isWritten (es ! j)))"

subsection \<open>What the builder holds after a list of AVCs\<close>

text \<open>
  The key under which \<open>addAvc\<close> files an AVC whose context has three parts, the
  permissions that a list of AVCs brings to a key, and the permission map after they
  have been added to a map.
\<close>

definition avcKey :: "SelinuxAvc \<Rightarrow> string" where
  "avcKey avc = Tclass avc @ '' '' @ Split (Tcontext avc) (CHR '':'') ! 2"

definition permsFor :: "SelinuxAvc list \<Rightarrow> string \<Rightarrow> string fset" where
  "permsFor avcs k = fset_of_list (map Perm (filter (\<lambda>a. avcKey a = k) avcs))"

definition addPerms ::
  "(string \<rightharpoonup> string fset) \<Rightarrow> SelinuxAvc list \<Rightarrow> (string \<rightharpoonup> string fset)" where
  "addPerms m avcs =
     (\<lambda>k. if permsFor avcs k = {||} then m k
          else Some ((case m k of None \<Rightarrow> {||} | Some ps \<Rightarrow> ps) |\<union>| permsFor avcs k))"

subsection \<open>A configuration and a world to run the functions in\<close>

text \<open>
  The theorems below hold for every configuration and every world. To run the functions
  on concrete inputs, the following configuration and a world in which every call
  succeeds are used.
\<close>

definition exampleConfig :: config where
  "exampleConfig =
     \<lparr>SeccompProfileRecordHookAnnotationKey = ''io.containers.trace-syscall'',
      SeccompProfileRecordLogsAnnotationKey = ''io.containers.trace-logs/'',
      SelinuxProfileRecordLogsAnnotationKey = ''io.containers.trace-avcs/'',
      ProfileRecordingOutputPath = ''/tmp/recordings'',
      SelinuxPermissiveProfile = ''selinuxrecording.process''\<rparr>"

definition quietWorld :: world where
  "quietWorld =
     \<lparr>TrimSpace = (\<lambda>s. s),
      GetPolicyUsage = (\<lambda>n ns. n @ ''_'' @ ns @ ''.process''),
      ReadFile = (\<lambda>t path. Inr ''{}''),
      clientGetSPOD = (\<lambda>t. Inr True),
      Dial = (\<lambda>t. None),
      Syscalls = (\<lambda>t p. Inr [''read'', ''write'']),
      ResetSyscalls = (\<lambda>t p. None),
      Avcs = (\<lambda>t p. Inr [\<lparr>Perm = ''read'', Tclass = ''file'',
                             Scontext = ''system_u:system_r:container_t:s0'',
                             Tcontext = ''system_u:object_r:bin_t:s0''\<rparr>]),
      ResetAvcs = (\<lambda>t p. None),
      CreateOrUpdate = (\<lambda>t obj spec. Inr ''created'')\<rparr>"

definition freshReconciler :: RecorderReconciler where
  "freshReconciler = \<lparr>nodeAddresses = [''10.0.0.1''], podsToWatch = Map.empty, trace = []\<rparr>"

subsection \<open>The scenario with two targets\<close>

text \<open>
  Three AVCs of class \<open>file\<close>: two on the target context
  \<open>system_u:object_r:bin_t:s0\<close> with the permissions \<open>read\<close> and \<open>execute\<close>, and
  one with the permission \<open>write\<close> on a third target context, which is left open here.
  The policy lines that go with them end in a line feed.
\<close>

definition scenarioAvcs :: "string \<Rightarrow> SelinuxAvc list" where
  "scenarioAvcs tcontext3 =
     [\<lparr>Perm = ''read'', Tclass = ''file'',
       Scontext = ''system_u:system_r:container_t:s0'',
       Tcontext = ''system_u:object_r:bin_t:s0''\<rparr>,
      \<lparr>Perm = ''execute'', Tclass = ''file'',
       Scontext = ''system_u:system_r:container_t:s0'',
       Tcontext = ''system_u:object_r:bin_t:s0''\<rparr>,
      \<lparr>Perm = ''write'', Tclass = ''file'',
       Scontext = ''system_u:system_r:container_t:s0'',
       Tcontext = tcontext3\<rparr>]"

definition headerLine :: string where
  "headerLine = ''(blockinherit container)'' @ [CHR 0x0A]"

definition binLine :: string where
  "binLine = ''(allow process bin_t ( file ( execute read )))'' @ [CHR 0x0A]"

definition usageLine :: string where
  "usageLine = ''(allow process my_usage_t ( file ( write )))'' @ [CHR 0x0A]"

section \<open>Properties\<close>

subsection \<open>Profile names\<close>

lemma LastIndex_absent: "c \<notin> set s \<Longrightarrow> LastIndex s c = - 1"
  by (induction s) (auto simp: Let_def)

lemma LastIndex_last: "c \<notin> set suf \<Longrightarrow> LastIndex (pre @ c # suf) c = int (length pre)"
  by (induction pre) (auto simp: Let_def LastIndex_absent)

text \<open>
  C5. For every string \<open>s\<close>: if \<open>s\<close> contains no dash, \<open>extractProfileName\<close> fails;
  otherwise it returns the prefix of \<open>s\<close> that ends just before the last dash.
\<close>

theorem extractProfileName_last_dash:
  "(CHR ''-'' \<notin> set s \<longrightarrow>
      extractProfileName s = Inl (Errorf ''malformed profile path: %s'' [s])) \<and>
   (CHR ''-'' \<in> set s \<longrightarrow>
      (\<exists>pre suf. s = pre @ CHR ''-'' # suf \<and> CHR ''-'' \<notin> set suf \<and>
         extractProfileName s = Inr pre))"
proof (intro conjI impI)
  assume "CHR ''-'' \<notin> set s"
  then show "extractProfileName s = Inl (Errorf ''malformed profile path: %s'' [s])"
    by (simp add: extractProfileName_def LastIndex_absent)
next
  assume "CHR ''-'' \<in> set s"
  then obtain pre suf where s: "s = pre @ CHR ''-'' # suf" and suf: "CHR ''-'' \<notin> set suf"
    using split_list_last by fastforce
  have "extractProfileName s = Inr pre"
    using suf by (simp add: s extractProfileName_def LastIndex_last)
  with s suf show "\<exists>pre suf. s = pre @ CHR ''-'' # suf \<and> CHR ''-'' \<notin> set suf \<and>
      extractProfileName s = Inr pre"
    by blast
qed

theorem extractProfileName_last_dash_witness:
  "CHR ''-'' \<in> set ''my-prof-1600000000'' \<and>
   (\<exists>pre suf. ''my-prof-1600000000'' = pre @ CHR ''-'' # suf \<and> CHR ''-'' \<notin> set suf \<and>
      extractProfileName ''my-prof-1600000000'' = Inr pre) \<and>
   extractProfileName ''my-prof-1600000000'' = Inr ''my-prof'' \<and>
   CHR ''-'' \<notin> set ''profile'' \<and>
   extractProfileName ''profile'' = Inl (Errorf ''malformed profile path: %s'' [''profile''])"
proof -
  have a: "CHR ''-'' \<in> set ''my-prof-1600000000''" by simp
  have b: "CHR ''-'' \<notin> set ''profile''" by simp
  have c: "extractProfileName ''my-prof-1600000000'' = Inr ''my-prof''"
    by (simp add: extractProfileName_def)
  from extractProfileName_last_dash [of "''my-prof-1600000000''"] a
  have d: "\<exists>pre suf. ''my-prof-1600000000'' = pre @ CHR ''-'' # suf \<and> CHR ''-'' \<notin> set suf \<and>
      extractProfileName ''my-prof-1600000000'' = Inr pre" by blast
  from extractProfileName_last_dash [of "''profile''"] b
  have e: "extractProfileName ''profile'' =
      Inl (Errorf ''malformed profile path: %s'' [''profile''])"
    by blast
  from a b c d e show ?thesis by blast
qed

lemma empty_name_written:
  assumes "CHR ''-'' \<notin> set t" and "Syscalls w (trace r) (CHR ''-'' # t) = Inr sys"
  shows "\<exists>res. CreateOrUpdateCall (SeccompProfileObject (Namespace n) [])
            (SeccompSpecAllow sys) res \<in>
          set (trace (snd (collectLogProfiles_range cfg w r n
            [\<lparr>kind = ProfileRecordingKindSeccompProfile, name = CHR ''-'' # t\<rparr>])))"
proof -
  have e: "extractProfileName (CHR ''-'' # t) = Inr []"
    using LastIndex_last [of "CHR ''-''" t "[]"] assms(1) by (simp add: extractProfileName_def)
  show ?thesis
    using assms(2)
    by (auto simp: e collectLogSeccompProfile_def Let_def emit_def
          split: sum.splits option.splits prod.splits)
qed

text \<open>
  C9. \<open>extractProfileName\<close> can succeed with an empty result: for every string whose
  only dash is its first character, such as \<open>-1600000000\<close>, it returns the empty string
  and no error. An empty object name can so be produced: in log mode, a seccomp profile
  of such a name whose system calls are retrieved is written to the cluster under the
  empty name.
\<close>

theorem extractProfileName_leading_dash:
  "CHR ''-'' \<notin> set t \<Longrightarrow>
   extractProfileName (CHR ''-'' # t) = Inr [] \<and>
   (Syscalls w (trace r) (CHR ''-'' # t) = Inr sys \<longrightarrow>
      (\<exists>res. CreateOrUpdateCall (SeccompProfileObject (Namespace n) [])
                (SeccompSpecAllow sys) res \<in>
              set (trace (snd (collectLogProfiles_range cfg w r n
                [\<lparr>kind = ProfileRecordingKindSeccompProfile, name = CHR ''-'' # t\<rparr>])))))"
  using LastIndex_last [of "CHR ''-''" t "[]"] empty_name_written [of t w r sys n cfg]
  by (simp add: extractProfileName_def)

theorem extractProfileName_leading_dash_witness:
  "CHR ''-'' \<notin> set ''1600000000'' \<and> extractProfileName ''-1600000000'' = Inr [] \<and>
   Syscalls quietWorld (trace freshReconciler) ''-1600000000'' = Inr [''read'', ''write''] \<and>
   (\<exists>res. CreateOrUpdateCall (SeccompProfileObject ''default'' [])
             (SeccompSpecAllow [''read'', ''write'']) res \<in>
           set (trace (snd (collectLogProfiles_range exampleConfig quietWorld freshReconciler
             \<lparr>Namespace = ''default'', Name = ''pod''\<rparr>
             [\<lparr>kind = ProfileRecordingKindSeccompProfile, name = ''-1600000000''\<rparr>]))))"
proof -
  have h: "CHR ''-'' \<notin> set ''1600000000''" by simp
  have s: "Syscalls quietWorld (trace freshReconciler) ''-1600000000'' = Inr [''read'', ''write'']"
    by (simp add: quietWorld_def)
  have n: "Namespace \<lparr>Namespace = ''default'', Name = ''pod''\<rparr> = ''default''" by simp
  note t = extractProfileName_leading_dash [OF h, of quietWorld freshReconciler
      "[''read'', ''write'']" "\<lparr>Namespace = ''default'', Name = ''pod''\<rparr>" exampleConfig,
      unfolded n]
  from t s h show ?thesis by blast
qed

subsection \<open>Splitting and joining\<close>

lemma Split_from_no_sep: "c \<notin> set s \<Longrightarrow> Split_from cur s c = [cur @ s]"
  by (induction s arbitrary: cur) auto

lemma Split_from_append_sep:
  "c \<notin> set a \<Longrightarrow> Split_from cur (a @ c # rest) c = (cur @ a) # Split_from [] rest c"
  by (induction a arbitrary: cur) auto

lemma length_Split_from: "length (Split_from cur s c) = Suc (count_list s c)"
  by (induction s arbitrary: cur) auto

lemma Split_from_parts:
  "p \<in> set (Split_from cur s c) \<Longrightarrow> c \<notin> set cur \<Longrightarrow> c \<notin> set p"
  by (induction s arbitrary: cur p) (auto split: if_splits)

lemma Join_Cons: "ps \<noteq> [] \<Longrightarrow> Join (p # ps) sep = p @ sep @ Join ps sep"
  by (cases ps) auto

lemma Split_from_nonempty: "Split_from cur s c \<noteq> []"
  by (induction s arbitrary: cur) auto

lemma Join_Split_from: "Join (Split_from cur s c) [c] = cur @ s"
  by (induction s arbitrary: cur) (auto simp: Join_Cons Split_from_nonempty)

lemma length_Split: "length (Split s c) = Suc (count_list s c)"
  by (simp add: Split_def length_Split_from)

lemma Split_parts: "p \<in> set (Split s c) \<Longrightarrow> c \<notin> set p"
  using Split_from_parts [of p "[]" s c] by (simp add: Split_def)

lemma Join_Split: "Join (Split s c) [c] = s"
  by (simp add: Split_def Join_Split_from)

lemma Split_no_sep: "c \<notin> set s \<Longrightarrow> Split s c = [s]"
  by (simp add: Split_def Split_from_no_sep)

lemma Split_append_sep: "c \<notin> set a \<Longrightarrow> Split (a @ c # rest) c = a # Split rest c"
  by (simp add: Split_def Split_from_append_sep)

subsection \<open>Contexts and policy lines\<close>

text \<open>
  C6. For every AVC whose target context has fewer than three parts separated by colons,
  adding it to the builder fails with the malformed-context error and leaves the builder
  as it was; for every target context with three or more parts, the derived type is
  exactly the third part, and the key appended is the class, a space and that part.
\<close>

theorem addAvc_ctxt2type_parts:
  "(length (Split (Tcontext avc) (CHR '':'')) < 3 \<longrightarrow>
      addAvc sb avc =
        (Some (Wrap (New ''Malformed SELinux context'') ''converting context to type''), sb)) \<and>
   (3 \<le> length (Split (Tcontext avc) (CHR '':'')) \<longrightarrow>
      ctxt2type (Tcontext avc) = Inr (Split (Tcontext avc) (CHR '':'') ! 2) \<and>
      fst (addAvc sb avc) = None \<and>
      keys (snd (addAvc sb avc)) =
        keys sb @ [Tclass avc @ '' '' @ Split (Tcontext avc) (CHR '':'') ! 2]) \<and>
   (CHR '':'' \<notin> set a \<and> CHR '':'' \<notin> set b \<and> CHR '':'' \<notin> set t \<longrightarrow>
      ctxt2type (a @ CHR '':'' # b @ CHR '':'' # t) = Inr t \<and>
      ctxt2type (a @ CHR '':'' # b @ CHR '':'' # t @ CHR '':'' # rest) = Inr t)"
proof (intro conjI impI)
  assume "length (Split (Tcontext avc) (CHR '':'')) < 3"
  then show "addAvc sb avc =
      (Some (Wrap (New ''Malformed SELinux context'') ''converting context to type''), sb)"
    by (simp add: addAvc_def ctxt2type_def seContextRequiredParts_def)
next
  assume three: "3 \<le> length (Split (Tcontext avc) (CHR '':''))"
  then show "ctxt2type (Tcontext avc) = Inr (Split (Tcontext avc) (CHR '':'') ! 2)"
    by (simp add: ctxt2type_def seContextRequiredParts_def)
  from three show "fst (addAvc sb avc) = None"
    by (simp add: addAvc_def ctxt2type_def seContextRequiredParts_def Let_def
             split: option.splits)
  from three show "keys (snd (addAvc sb avc)) =
      keys sb @ [Tclass avc @ '' '' @ Split (Tcontext avc) (CHR '':'') ! 2]"
    by (simp add: addAvc_def ctxt2type_def seContextRequiredParts_def Let_def
             split: option.splits)
next
  assume h: "CHR '':'' \<notin> set a \<and> CHR '':'' \<notin> set b \<and> CHR '':'' \<notin> set t"
  then show "ctxt2type (a @ CHR '':'' # b @ CHR '':'' # t) = Inr t"
    by (simp add: ctxt2type_def seContextRequiredParts_def Split_append_sep Split_no_sep)
  from h show "ctxt2type (a @ CHR '':'' # b @ CHR '':'' # t @ CHR '':'' # rest) = Inr t"
    by (simp add: ctxt2type_def seContextRequiredParts_def Split_append_sep length_Split)
qed

theorem addAvc_ctxt2type_parts_witness:
  "length (Split ''bin_t:s0'' (CHR '':'')) < 3 \<and>
   addAvc (newSeProfileBuilder ''u'')
     \<lparr>Perm = ''read'', Tclass = ''file'', Scontext = [], Tcontext = ''bin_t:s0''\<rparr> =
     (Some (Wrap (New ''Malformed SELinux context'') ''converting context to type''),
      newSeProfileBuilder ''u'') \<and>
   3 \<le> length (Split ''system_u:object_r:bin_t:s0'' (CHR '':'')) \<and>
   ctxt2type ''system_u:object_r:bin_t:s0'' = Inr ''bin_t'' \<and>
   keys (snd (addAvc (newSeProfileBuilder ''u'')
     \<lparr>Perm = ''read'', Tclass = ''file'', Scontext = [],
      Tcontext = ''system_u:object_r:bin_t:s0''\<rparr>)) = [''file bin_t''] \<and>
   CHR '':'' \<notin> set ''system_u'' \<and> CHR '':'' \<notin> set ''object_r'' \<and> CHR '':'' \<notin> set ''bin_t''"
proof -
  have s1: "Split ''bin_t:s0'' (CHR '':'') = [''bin_t'', ''s0'']"
    by (simp add: Split_def)
  have s2: "Split ''system_u:object_r:bin_t:s0'' (CHR '':'') =
      [''system_u'', ''object_r'', ''bin_t'', ''s0'']"
    by (simp add: Split_def)
  show ?thesis
    using addAvc_ctxt2type_parts [of "\<lparr>Perm = ''read'', Tclass = ''file'', Scontext = [],
        Tcontext = ''bin_t:s0''\<rparr>" "newSeProfileBuilder ''u''" "''system_u''" "''object_r''"
        "''bin_t''" "''s0''"]
      addAvc_ctxt2type_parts [of "\<lparr>Perm = ''read'', Tclass = ''file'', Scontext = [],
        Tcontext = ''system_u:object_r:bin_t:s0''\<rparr>" "newSeProfileBuilder ''u''" "''system_u''"
        "''object_r''" "''bin_t''" "''s0''"]
    by (simp add: s1 s2 newSeProfileBuilder_def)
qed

lemma sort_sorted_list_of_fset: "sort (sorted_list_of_fset ps) = sorted_list_of_fset ps"
  by (simp add: sorted_list_of_fset.rep_eq sorted_sort_id)

text \<open>
  C8. For every target class and target context, formatting a policy line from a nil or
  an empty permission set fails; for every non-empty permission set the line lists the
  permissions in ascending order without repetition, joined by single spaces.
\<close>

theorem policyLine_perms:
  "policyLine tclass tcontext None = Inl (New ''nil permissions set or no permissions'') \<and>
   policyLine tclass tcontext (Some {||}) = Inl (New ''nil permissions set or no permissions'') \<and>
   (perms \<noteq> {||} \<longrightarrow>
      sorted (sorted_list_of_fset perms) \<and> distinct (sorted_list_of_fset perms) \<and>
      set (sorted_list_of_fset perms) = fset perms \<and>
      policyLine tclass tcontext (Some perms) =
        Inr (''(allow process '' @ tcontext @ '' ( '' @ tclass @ '' ( ''
             @ Join (sorted_list_of_fset perms) '' '' @ '' )))'' @ [CHR 0x0A]))"
proof -
  have "sorted (sorted_list_of_fset perms)" "distinct (sorted_list_of_fset perms)"
    "set (sorted_list_of_fset perms) = fset perms"
    by (simp_all add: sorted_list_of_fset.rep_eq)
  then show ?thesis
    by (simp add: policyLine_def sort_sorted_list_of_fset)
qed

theorem policyLine_perms_witness:
  "{|''read'', ''execute''|} \<noteq> {||} \<and>
   policyLine ''file'' ''bin_t'' (Some {|''read'', ''execute''|}) =
     Inr (''(allow process bin_t ( file ( execute read )))'' @ [CHR 0x0A])"
proof -
  have e: "sorted_list_of_fset {|''read'', ''execute''|} = [''execute'', ''read'']"
    by code_simp
  show ?thesis
    using policyLine_perms [of "''file''" "''bin_t''" "{|''read'', ''execute''|}"] e
    by simp
qed

subsection \<open>Hook profiles\<close>

lemma parseHookAnnotations_range_kind:
  "parseHookAnnotations_range cfg ts res anns = Inr out \<Longrightarrow>
   \<forall>p \<in> set res. kind p = ProfileRecordingKindSeccompProfile \<Longrightarrow>
   \<forall>p \<in> set out. kind p = ProfileRecordingKindSeccompProfile"
proof (induction anns arbitrary: res)
  case Nil
  then show ?case by simp
next
  case (Cons a rest)
  obtain key val where a: "a = (key, val)" by (cases a)
  let ?f = "ts (TrimPrefix val ''of:'')"
  let ?new = "res @ [\<lparr>kind = ProfileRecordingKindSeccompProfile, name = ?f\<rparr>]"
  have new: "\<forall>p \<in> set ?new. kind p = ProfileRecordingKindSeccompProfile"
    using Cons.prems(2) by simp
  from Cons.prems(1) have
    "parseHookAnnotations_range cfg ts res rest = Inr out \<or>
     parseHookAnnotations_range cfg ts ?new rest = Inr out"
    by (simp add: a Let_def split: if_splits)
  then show ?case
    using Cons.IH [of res] Cons.IH [of ?new] Cons.prems(2) new by blast
qed

lemma collectLocalProfiles_seccomp:
  "\<forall>p \<in> set prfs. kind p = ProfileRecordingKindSeccompProfile \<Longrightarrow>
   fst (collectLocalProfiles w r n prfs) \<noteq>
     Some (New ''only seccomp profiles supported via a hook'')"
proof (induction prfs arbitrary: r)
  case Nil
  then show ?case by simp
next
  case (Cons p rest)
  then show ?case
    by (simp add: Let_def split: sum.splits)
qed

text \<open>
  C10. Every profile returned by \<open>parseHookAnnotations\<close> has kind SeccompProfile;
  therefore \<open>collectLocalProfiles\<close> on these profiles never returns the error
  "only seccomp profiles supported via a hook".
\<close>

theorem hook_profiles_are_seccomp:
  "parseHookAnnotations cfg ts anns = Inr res \<Longrightarrow>
   (\<forall>p \<in> set res. kind p = ProfileRecordingKindSeccompProfile) \<and>
   fst (collectLocalProfiles w r n res) \<noteq>
     Some (New ''only seccomp profiles supported via a hook'')"
proof -
  assume "parseHookAnnotations cfg ts anns = Inr res"
  then have k: "\<forall>p \<in> set res. kind p = ProfileRecordingKindSeccompProfile"
    using parseHookAnnotations_range_kind [of cfg ts "[]" anns res]
    by (simp add: parseHookAnnotations_def)
  with collectLocalProfiles_seccomp [OF k] show ?thesis by simp
qed

lemma example_hook_parse:
  "parseHookAnnotations exampleConfig (\<lambda>s. s)
     [(''io.containers.trace-syscall/ctr'', ''of:/tmp/recordings/prof-1600000000.json'')] =
   Inr [\<lparr>kind = ProfileRecordingKindSeccompProfile,
         name = ''/tmp/recordings/prof-1600000000.json''\<rparr>]"
  by (simp add: parseHookAnnotations_def exampleConfig_def HasPrefix_def TrimPrefix_def
        IsAbs_def)

theorem hook_profiles_are_seccomp_witness:
  "parseHookAnnotations exampleConfig (\<lambda>s. s)
     [(''io.containers.trace-syscall/ctr'', ''of:/tmp/recordings/prof-1600000000.json'')] =
   Inr [\<lparr>kind = ProfileRecordingKindSeccompProfile,
         name = ''/tmp/recordings/prof-1600000000.json''\<rparr>] \<and>
   fst (collectLocalProfiles quietWorld freshReconciler
          \<lparr>Namespace = ''default'', Name = ''pod''\<rparr>
          [\<lparr>kind = ProfileRecordingKindSeccompProfile,
            name = ''/tmp/recordings/prof-1600000000.json''\<rparr>]) \<noteq>
     Some (New ''only seccomp profiles supported via a hook'')"
  using example_hook_parse hook_profiles_are_seccomp [OF example_hook_parse]
  by simp

subsection \<open>Tracking pods\<close>

text \<open>
  C7. If the recorder observes a pod in phase Succeeded, or not found, for which
  \<open>podsToWatch\<close> has no entry, \<open>collectProfile\<close> returns success and changes
  nothing: the trace is the same, so no profile is written and no call is made.
\<close>

theorem collectProfile_untracked:
  "podsToWatch r (String req) = None \<Longrightarrow>
   collectProfile cfg w r req = (None, r) \<and>
   Reconcile cfg w r req (NotFound e) = (None, r) \<and>
   (Phase pod = PodSucceeded \<longrightarrow> Reconcile cfg w r req (Found pod) = (None, r))"
  by (simp add: collectProfile_def Reconcile_def Reconcile_pod_def)

theorem collectProfile_untracked_witness:
  "podsToWatch freshReconciler (String \<lparr>Namespace = ''default'', Name = ''pod''\<rparr>) = None \<and>
   collectProfile exampleConfig quietWorld freshReconciler
     \<lparr>Namespace = ''default'', Name = ''pod''\<rparr> = (None, freshReconciler) \<and>
   Reconcile exampleConfig quietWorld freshReconciler \<lparr>Namespace = ''default'', Name = ''pod''\<rparr>
     (NotFound (New ''not found'')) = (None, freshReconciler) \<and>
   Phase \<lparr>Phase = PodSucceeded, Annotations = []\<rparr> = PodSucceeded \<and>
   Reconcile exampleConfig quietWorld freshReconciler \<lparr>Namespace = ''default'', Name = ''pod''\<rparr>
     (Found \<lparr>Phase = PodSucceeded, Annotations = []\<rparr>) = (None, freshReconciler)"
proof -
  have h: "podsToWatch freshReconciler (String \<lparr>Namespace = ''default'', Name = ''pod''\<rparr>) = None"
    by (simp add: freshReconciler_def)
  show ?thesis
    using h collectProfile_untracked [OF h, of exampleConfig quietWorld "New ''not found''"
        "\<lparr>Phase = PodSucceeded, Annotations = []\<rparr>"]
    by simp
qed





subsection \<open>Resets follow writes\<close>

lemma resetAfterWrite_Nil: "resetAfterWrite []"
  by (simp add: resetAfterWrite_def)

lemma resetAfterWrite_Cons:
  "\<not> isReset a \<Longrightarrow> isWritten a \<or> resetAfterWrite es \<Longrightarrow> resetAfterWrite (a # es)"
proof -
  assume a: "\<not> isReset a" and d: "isWritten a \<or> resetAfterWrite es"
  show ?thesis
    unfolding resetAfterWrite_def
  proof (intro allI impI)
    fix i
    assume i: "i < length (a # es)" and r: "isReset ((a # es) ! i)"
    from a r obtain k where k: "i = Suc k" by (cases i) auto
    from d show "\<exists>j<i. isWritten ((a # es) ! j)"
    proof
      assume "isWritten a"
      then show ?thesis using k by (intro exI [of _ 0]) simp
    next
      assume "resetAfterWrite es"
      with i r k obtain j where "j < k" "isWritten (es ! j)"
        by (auto simp: resetAfterWrite_def)
      then show ?thesis using k by (intro exI [of _ "Suc j"]) simp
    qed
  qed
qed

lemma seccomp_trace:
  "\<exists>new. trace (snd (collectLogSeccompProfile w r pn ns pid)) = trace r @ new \<and>
     resetAfterWrite new \<and>
     ((\<exists>e \<in> set new. isFailure e) \<longrightarrow> (\<forall>e \<in> set new. \<not> isReset e)) \<and>
     ((\<exists>e \<in> set new. isReset e) \<longrightarrow>
        (\<exists>snap spec action ev res.
           new = [snap, CreateOrUpdateCall (SeccompProfileObject ns pn) spec (Inr action), ev,
                  ResetSyscallsCall pid res]))"
  by (auto simp: collectLogSeccompProfile_def Let_def emit_def resetAfterWrite_Cons
        resetAfterWrite_Nil split: sum.splits option.splits)

lemma selinux_trace:
  "\<exists>new. trace (snd (collectLogSelinuxProfile cfg w r pn ns pid)) = trace r @ new \<and>
     resetAfterWrite new \<and>
     ((\<exists>e \<in> set new. isFailure e) \<longrightarrow> (\<forall>e \<in> set new. \<not> isReset e)) \<and>
     ((\<exists>e \<in> set new. isReset e) \<longrightarrow>
        (\<exists>snap spec action ev res.
           new = [snap, CreateOrUpdateCall (SelinuxProfileObject ns pn) spec (Inr action), ev,
                  ResetAvcsCall pid res])) \<and>
     (\<forall>avcs err. Avcs w (trace r) pid = Inr avcs \<and>
        formatSelinuxProfile cfg w (SelinuxProfileObject ns pn) avcs = Inl err \<longrightarrow>
        (\<forall>e \<in> set new. \<not> isReset e))"
  by (auto simp: collectLogSelinuxProfile_def Let_def emit_def resetAfterWrite_Cons
        resetAfterWrite_Nil split: sum.splits option.splits error.splits)

text \<open>
  C4. In log mode, for each profile, the reset call is made only after the
  create-or-update of the profile object was accepted: the calls added to the trace have
  a write before every reset, and a trace with a reset is the snapshot, the accepted write
  of this profile, its event and the reset. If the snapshot, the formatting or the write
  fails, no reset is made.
\<close>

theorem reset_only_after_write:
  "(\<exists>new. trace (snd (collectLogSeccompProfile w r pn ns pid)) = trace r @ new \<and>
     resetAfterWrite new \<and>
     ((\<exists>e \<in> set new. isFailure e) \<longrightarrow> (\<forall>e \<in> set new. \<not> isReset e)) \<and>
     ((\<exists>e \<in> set new. isReset e) \<longrightarrow>
        (\<exists>snap spec action ev res.
           new = [snap, CreateOrUpdateCall (SeccompProfileObject ns pn) spec (Inr action), ev,
                  ResetSyscallsCall pid res]))) \<and>
   (\<exists>new. trace (snd (collectLogSelinuxProfile cfg w r pn ns pid)) = trace r @ new \<and>
     resetAfterWrite new \<and>
     ((\<exists>e \<in> set new. isFailure e) \<longrightarrow> (\<forall>e \<in> set new. \<not> isReset e)) \<and>
     ((\<exists>e \<in> set new. isReset e) \<longrightarrow>
        (\<exists>snap spec action ev res.
           new = [snap, CreateOrUpdateCall (SelinuxProfileObject ns pn) spec (Inr action), ev,
                  ResetAvcsCall pid res])) \<and>
     (\<forall>avcs err. Avcs w (trace r) pid = Inr avcs \<and>
        formatSelinuxProfile cfg w (SelinuxProfileObject ns pn) avcs = Inl err \<longrightarrow>
        (\<forall>e \<in> set new. \<not> isReset e)))"
  using seccomp_trace [of w r pn ns pid] selinux_trace [of cfg w r pn ns pid]
  by (rule conjI)

lemma example_seccomp_trace:
  "trace (snd (collectLogSeccompProfile quietWorld freshReconciler ''prof'' ''default''
     ''prof-1600000000'')) =
   [SyscallsCall ''prof-1600000000'' (Inr [''read'', ''write'']),
    CreateOrUpdateCall (SeccompProfileObject ''default'' ''prof'')
      (SeccompSpecAllow [''read'', ''write'']) (Inr ''created''),
    RecordEvent (SeccompProfileObject ''default'' ''prof'')
      (Normal reasonProfileCreated ''seccomp profile created''),
    ResetSyscallsCall ''prof-1600000000'' None]"
  by (simp add: collectLogSeccompProfile_def quietWorld_def freshReconciler_def emit_def
        Let_def)

lemma example_failed_write_trace:
  "trace (snd (collectLogSeccompProfile
     (quietWorld\<lparr>CreateOrUpdate := \<lambda>t obj spec. Inl (New ''conflict'')\<rparr>)
     freshReconciler ''prof'' ''default'' ''prof-1600000000'')) =
   [SyscallsCall ''prof-1600000000'' (Inr [''read'', ''write'']),
    CreateOrUpdateCall (SeccompProfileObject ''default'' ''prof'')
      (SeccompSpecAllow [''read'', ''write'']) (Inl (New ''conflict'')),
    RecordEvent (SeccompProfileObject ''default'' ''prof'')
      (Warning reasonProfileCreationFailed (New ''conflict''))]"
  by (simp add: collectLogSeccompProfile_def quietWorld_def freshReconciler_def emit_def
        Let_def)

theorem reset_only_after_write_witness:
  "isReset (trace (snd (collectLogSeccompProfile quietWorld freshReconciler ''prof''
      ''default'' ''prof-1600000000'')) ! 3) \<and>
   isWritten (trace (snd (collectLogSeccompProfile quietWorld freshReconciler ''prof''
      ''default'' ''prof-1600000000'')) ! 1) \<and>
   isFailure (trace (snd (collectLogSeccompProfile
      (quietWorld\<lparr>CreateOrUpdate := \<lambda>t obj spec. Inl (New ''conflict'')\<rparr>)
      freshReconciler ''prof'' ''default'' ''prof-1600000000'')) ! 1) \<and>
   filter isReset (trace (snd (collectLogSeccompProfile
      (quietWorld\<lparr>CreateOrUpdate := \<lambda>t obj spec. Inl (New ''conflict'')\<rparr>)
      freshReconciler ''prof'' ''default'' ''prof-1600000000''))) = []"
proof -
  let ?ok = "trace (snd (collectLogSeccompProfile quietWorld freshReconciler ''prof''
      ''default'' ''prof-1600000000''))"
  let ?bad = "trace (snd (collectLogSeccompProfile
      (quietWorld\<lparr>CreateOrUpdate := \<lambda>t obj spec. Inl (New ''conflict'')\<rparr>)
      freshReconciler ''prof'' ''default'' ''prof-1600000000''))"
  have e: "trace freshReconciler = []" by (simp add: freshReconciler_def)
  have r: "\<exists>x \<in> set ?ok. isReset x" by (simp add: example_seccomp_trace)
  have f: "\<exists>x \<in> set ?bad. isFailure x" by (simp add: example_failed_write_trace)
  from reset_only_after_write [of quietWorld freshReconciler "''prof''" "''default''"
      "''prof-1600000000''" exampleConfig] r
  have a: "\<exists>snap spec action ev res.
      ?ok = [snap, CreateOrUpdateCall (SeccompProfileObject ''default'' ''prof'') spec
               (Inr action), ev, ResetSyscallsCall ''prof-1600000000'' res]"
    by (auto simp: e)
  from reset_only_after_write [of
      "quietWorld\<lparr>CreateOrUpdate := \<lambda>t obj spec. Inl (New ''conflict'')\<rparr>"
      freshReconciler "''prof''" "''default''" "''prof-1600000000''" exampleConfig] f
  have b: "\<forall>x \<in> set ?bad. \<not> isReset x"
    by (auto simp: e)
  from b have c: "filter isReset ?bad = []"
    by (simp add: filter_empty_conv)
  have d: "isFailure (?bad ! 1)" by (simp add: example_failed_write_trace)
  from a have "isReset (?ok ! 3) \<and> isWritten (?ok ! 1)" by auto
  with c d show ?thesis by simp
qed

subsection \<open>The builder depends on the multiset of AVCs\<close>

lemma addAvc_malformed:
  "\<not> 3 \<le> length (Split (Tcontext avc) (CHR '':'')) \<Longrightarrow>
   addAvc sb avc =
     (Some (Wrap (New ''Malformed SELinux context'') ''converting context to type''), sb)"
  by (simp add: addAvc_def ctxt2type_def seContextRequiredParts_def)

lemma addAvc_wellformed:
  "3 \<le> length (Split (Tcontext avc) (CHR '':'')) \<Longrightarrow>
   addAvc sb avc =
     (None, sb\<lparr>permMap := addPerms (permMap sb) [avc],
               keys := keys sb @ [avcKey avc]\<rparr>)"
  by (cases sb) (auto simp: addAvc_def ctxt2type_def seContextRequiredParts_def Let_def avcKey_def
        addPerms_def permsFor_def fun_eq_iff split: option.splits)

lemma addPerms_Nil: "addPerms m [] = m"
  by (simp add: addPerms_def permsFor_def fun_eq_iff)

lemma addPerms_Cons: "addPerms (addPerms m [a]) avcs = addPerms m (a # avcs)"
  by (auto simp: addPerms_def permsFor_def fun_eq_iff split: option.splits)

lemma AddAvcList_error:
  "fst (AddAvcList sb avcs) =
     (if \<forall>a \<in> set avcs. 3 \<le> length (Split (Tcontext a) (CHR '':'')) then None
      else Some (Wrap (Wrap (New ''Malformed SELinux context'') ''converting context to type'')
                   ''adding AVC''))"
proof (induction avcs arbitrary: sb)
  case Nil
  then show ?case by simp
next
  case (Cons a avcs)
  show ?case
  proof (cases "3 \<le> length (Split (Tcontext a) (CHR '':''))")
    case True
    then show ?thesis using Cons.IH by (simp add: addAvc_wellformed)
  next
    case False
    then show ?thesis by (simp add: addAvc_malformed)
  qed
qed

lemma AddAvcList_state:
  "\<forall>a \<in> set avcs. 3 \<le> length (Split (Tcontext a) (CHR '':'')) \<Longrightarrow>
   snd (AddAvcList sb avcs) =
     sb\<lparr>permMap := addPerms (permMap sb) avcs, keys := keys sb @ map avcKey avcs\<rparr>"
proof (induction avcs arbitrary: sb)
  case Nil
  then show ?case by (simp add: addPerms_Nil)
next
  case (Cons a avcs)
  then show ?case by (simp add: addAvc_wellformed addPerms_Cons)
qed

lemma permsFor_mset: "mset avcs = mset avcs' \<Longrightarrow> permsFor avcs k = permsFor avcs' k"
proof -
  assume "mset avcs = mset avcs'"
  then have "set avcs = set avcs'" by (rule mset_eq_setD)
  then have "set (map Perm (filter (\<lambda>a. avcKey a = k) avcs)) =
      set (map Perm (filter (\<lambda>a. avcKey a = k) avcs'))" by simp
  then show ?thesis
    unfolding permsFor_def by (metis fset_of_list.rep_eq fset_inject)
qed

lemma addPerms_mset: "mset avcs = mset avcs' \<Longrightarrow> addPerms m avcs = addPerms m avcs'"
proof -
  assume "mset avcs = mset avcs'"
  then have h: "permsFor avcs = permsFor avcs'"
    by (intro ext permsFor_mset)
  show ?thesis unfolding addPerms_def h ..
qed

lemma sort_mset: "mset xs = mset ys \<Longrightarrow> sort xs = sort ys"
  by (metis properties_for_sort sorted_sort mset_sort)

lemma Format_sorted_keys: "Format cfg (sb\<lparr>keys := sort (keys sb)\<rparr>) = Format cfg sb"
  by (simp add: Format_def Let_def sorted_sort_id)

lemma Format_mset:
  assumes "mset ks = mset ks'"
  shows "Format cfg (sb\<lparr>keys := ks\<rparr>) = Format cfg (sb\<lparr>keys := ks'\<rparr>)"
proof -
  have "Format cfg (sb\<lparr>keys := ks\<rparr>) = Format cfg ((sb\<lparr>keys := ks\<rparr>)\<lparr>keys := sort ks\<rparr>)"
    using Format_sorted_keys [of cfg "sb\<lparr>keys := ks\<rparr>"] by simp
  also have "\<dots> = Format cfg ((sb\<lparr>keys := ks'\<rparr>)\<lparr>keys := sort ks'\<rparr>)"
    using sort_mset [OF assms] by simp
  also have "\<dots> = Format cfg (sb\<lparr>keys := ks'\<rparr>)"
    using Format_sorted_keys [of cfg "sb\<lparr>keys := ks'\<rparr>"] by simp
  finally show ?thesis .
qed

lemma builder_mset:
  assumes "mset avcs = mset avcs'"
  shows "fst (AddAvcList sb avcs) = fst (AddAvcList sb avcs')"
    and "fst (AddAvcList sb avcs) = None \<Longrightarrow>
         Format cfg (snd (AddAvcList sb avcs)) = Format cfg (snd (AddAvcList sb avcs'))"
proof -
  have s: "set avcs = set avcs'" using assms by (rule mset_eq_setD)
  show e: "fst (AddAvcList sb avcs) = fst (AddAvcList sb avcs')"
    by (simp add: AddAvcList_error s)
  assume ok: "fst (AddAvcList sb avcs) = None"
  then have wf: "\<forall>a \<in> set avcs. 3 \<le> length (Split (Tcontext a) (CHR '':''))"
    by (simp add: AddAvcList_error split: if_splits)
  then have wf': "\<forall>a \<in> set avcs'. 3 \<le> length (Split (Tcontext a) (CHR '':''))"
    using s by simp
  have m: "mset (keys sb @ map avcKey avcs) = mset (keys sb @ map avcKey avcs')"
    using assms by (metis mset_append mset_map)
  have "Format cfg (snd (AddAvcList sb avcs)) =
      Format cfg ((sb\<lparr>permMap := addPerms (permMap sb) avcs\<rparr>)\<lparr>keys := keys sb @ map avcKey avcs\<rparr>)"
    by (simp add: AddAvcList_state [OF wf])
  also have "\<dots> =
      Format cfg ((sb\<lparr>permMap := addPerms (permMap sb) avcs\<rparr>)\<lparr>keys := keys sb @ map avcKey avcs'\<rparr>)"
    by (rule Format_mset [OF m])
  also have "\<dots> = Format cfg (snd (AddAvcList sb avcs'))"
    by (simp add: AddAvcList_state [OF wf'] addPerms_mset [OF assms])
  finally show "Format cfg (snd (AddAvcList sb avcs)) = Format cfg (snd (AddAvcList sb avcs'))" .
qed

text \<open>
  C2. The policy builder is deterministic and depends on the multiset of AVCs only: for
  every usage context, two lists holding the same AVCs in any order give the same
  result of \<open>AddAvcList\<close> and, when that succeeds, the same text from \<open>Format\<close>
  on a fresh builder; \<open>formatSelinuxProfile\<close>, which runs both, gives the same
  result, error or text.
\<close>

theorem policy_builder_deterministic:
  "mset avcs = mset avcs' \<Longrightarrow>
   formatSelinuxProfile cfg w profile avcs = formatSelinuxProfile cfg w profile avcs' \<and>
   fst (AddAvcList (newSeProfileBuilder usage) avcs) =
     fst (AddAvcList (newSeProfileBuilder usage) avcs') \<and>
   (fst (AddAvcList (newSeProfileBuilder usage) avcs) = None \<longrightarrow>
      fst (Format cfg (snd (AddAvcList (newSeProfileBuilder usage) avcs))) =
      fst (Format cfg (snd (AddAvcList (newSeProfileBuilder usage) avcs'))))"
proof -
  assume m: "mset avcs = mset avcs'"
  let ?u = "GetPolicyUsage w (objName profile) (objNamespace profile)"
  obtain e1 s1 where a1: "AddAvcList (newSeProfileBuilder ?u) avcs = (e1, s1)"
    by (cases "AddAvcList (newSeProfileBuilder ?u) avcs")
  obtain e2 s2 where a2: "AddAvcList (newSeProfileBuilder ?u) avcs' = (e2, s2)"
    by (cases "AddAvcList (newSeProfileBuilder ?u) avcs'")
  have e: "e2 = e1"
    using builder_mset(1) [OF m, of "newSeProfileBuilder ?u"] a1 a2 by simp
  have f: "e1 = None \<Longrightarrow> Format cfg s2 = Format cfg s1"
    using builder_mset(2) [OF m, of "newSeProfileBuilder ?u" cfg] a1 a2 by simp
  have 1: "formatSelinuxProfile cfg w profile avcs = formatSelinuxProfile cfg w profile avcs'"
    by (cases e1) (simp_all add: formatSelinuxProfile_def Let_def a1 a2 e f)
  show ?thesis
    using 1 builder_mset(1) [OF m, of "newSeProfileBuilder usage"]
      builder_mset(2) [OF m, of "newSeProfileBuilder usage" cfg]
    by simp
qed

subsection \<open>The scenario with two targets, formatted\<close>

lemma Split_three_parts:
  "CHR '':'' \<notin> set a \<Longrightarrow> CHR '':'' \<notin> set b \<Longrightarrow> CHR '':'' \<notin> set t \<Longrightarrow>
   Split (a @ CHR '':'' # b @ CHR '':'' # t @ CHR '':'' # rest) (CHR '':'') =
     a # b # t # Split rest (CHR '':'')"
  by (simp add: Split_append_sep)

lemma Format_keys_step:
  assumes "targetClassCtx cfg sb key = Inr (tc, tx)" and "tc \<noteq> []" and "tx \<noteq> []"
    and "policyLine tc tx (permMap sb key) = Inr line"
  shows "Format_keys cfg sb (key # rest) =
    Format_keys cfg (sb\<lparr>policyBuilder := policyBuilder sb @ line\<rparr>) rest"
  using assms by (simp add: writeLineFromKeyVal_def)

lemma Format_fresh:
  "Format cfg \<lparr>permMap = m, keys = ks, usageCtx = u, policyBuilder = []\<rparr> =
   Format_keys cfg \<lparr>permMap = m, keys = sort ks, usageCtx = u, policyBuilder = headerLine\<rparr>
     (sort ks)"
  by (simp add: Format_def Let_def headerLine_def)

lemma perms_read_execute:
  "sorted_list_of_fset {|''read'', ''execute''|} = [''execute'', ''read'']"
  by code_simp

lemma perms_write: "sorted_list_of_fset {|''write''|} = [''write'']"
  by code_simp

lemma scenario_policy:
  assumes c: "CHR '':'' \<notin> set p" and s: "CHR '' '' \<notin> set p" and o: "''bin_t'' < p"
    and p: "SelinuxPermissiveProfile cfg = p"
  shows "AddAvcList (newSeProfileBuilder ''my_usage_t'')
           (scenarioAvcs (''system_u:system_r:'' @ p @ '':s0'')) =
         (None, \<lparr>permMap = addPerms Map.empty (scenarioAvcs (''system_u:system_r:'' @ p @ '':s0'')),
                 keys = [''file bin_t'', ''file bin_t'', ''file '' @ p],
                 usageCtx = ''my_usage_t'', policyBuilder = []\<rparr>)"
    and "fst (Format cfg (snd (AddAvcList (newSeProfileBuilder ''my_usage_t'')
           (scenarioAvcs (''system_u:system_r:'' @ p @ '':s0''))))) =
         Inr (headerLine @ binLine @ binLine @ usageLine)"
proof -
  let ?avcs = "scenarioAvcs (''system_u:system_r:'' @ p @ '':s0'')"
  let ?k1 = "''file bin_t''"
  let ?k2 = "''file '' @ p"
  have sp1: "Split ''system_u:object_r:bin_t:s0'' (CHR '':'') =
      [''system_u'', ''object_r'', ''bin_t'', ''s0'']"
    by (simp add: Split_def)
  have sp3: "Split (''system_u:system_r:'' @ p @ '':s0'') (CHR '':'') =
      [''system_u'', ''system_r'', p, ''s0'']"
    using Split_three_parts [of "''system_u''" "''system_r''" p "''s0''"] c
    by (simp add: Split_no_sep)
  note sp3 = this [simplified]
  have ks: "map avcKey ?avcs = [?k1, ?k1, ?k2]"
    by (simp add: scenarioAvcs_def avcKey_def sp1 sp3)
  have wf: "\<forall>a \<in> set ?avcs. 3 \<le> length (Split (Tcontext a) (CHR '':''))"
    by (simp add: scenarioAvcs_def sp1 sp3)
  have e: "fst (AddAvcList (newSeProfileBuilder ''my_usage_t'') ?avcs) = None"
    using wf by (simp add: AddAvcList_error)
  have st: "snd (AddAvcList (newSeProfileBuilder ''my_usage_t'') ?avcs) =
      \<lparr>permMap = addPerms Map.empty ?avcs, keys = [?k1, ?k1, ?k2],
       usageCtx = ''my_usage_t'', policyBuilder = []\<rparr>"
    using AddAvcList_state [OF wf, of "newSeProfileBuilder ''my_usage_t''"] ks
    by (simp add: newSeProfileBuilder_def)
  from e st show "AddAvcList (newSeProfileBuilder ''my_usage_t'') ?avcs =
      (None, \<lparr>permMap = addPerms Map.empty ?avcs, keys = [?k1, ?k1, ?k2],
              usageCtx = ''my_usage_t'', policyBuilder = []\<rparr>)"
    by (metis prod.collapse)
  have ne: "p \<noteq> ''bin_t''" using o by auto
  have lt: "?k1 < ?k2" using o by simp
  then have so: "sort [?k1, ?k1, ?k2] = [?k1, ?k1, ?k2]"
    by (intro sorted_sort_id) (simp add: less_imp_le)
  have pm1: "addPerms Map.empty ?avcs ?k1 = Some {|''read'', ''execute''|}"
    using ne by (auto simp: addPerms_def permsFor_def scenarioAvcs_def avcKey_def sp1 sp3)
  have pm2: "addPerms Map.empty ?avcs ?k2 = Some {|''write''|}"
    using ne by (auto simp: addPerms_def permsFor_def scenarioAvcs_def avcKey_def sp1 sp3)
  have sk1: "Split ?k1 (CHR '' '') = [''file'', ''bin_t'']"
    by (simp add: Split_def)
  have sk2: "Split ?k2 (CHR '' '') = [''file'', p]"
    using Split_append_sep [of "CHR '' ''" "''file''" p] s by (simp add: Split_no_sep)
  note sk2 = this [simplified]
  have tc1: "\<And>sb. targetClassCtx cfg sb ?k1 = Inr (''file'', ''bin_t'')"
    using ne by (simp add: targetClassCtx_def sk1 p)
  have tc2: "\<And>sb. targetClassCtx cfg sb ?k2 = Inr (''file'', usageCtx sb)"
    by (simp add: targetClassCtx_def sk2 p)
  have pl1: "policyLine ''file'' ''bin_t'' (Some {|''read'', ''execute''|}) = Inr binLine"
    by (simp add: policyLine_def perms_read_execute binLine_def)
  have pl2: "policyLine ''file'' ''my_usage_t'' (Some {|''write''|}) = Inr usageLine"
    by (simp add: policyLine_def perms_write usageLine_def)
  let ?sb0 = "\<lparr>permMap = addPerms Map.empty ?avcs, keys = [?k1, ?k1, ?k2],
       usageCtx = ''my_usage_t'', policyBuilder = headerLine\<rparr>"
  have f1: "Format_keys cfg ?sb0 [?k1, ?k1, ?k2] =
      Format_keys cfg (?sb0\<lparr>policyBuilder := headerLine @ binLine\<rparr>) [?k1, ?k2]"
    using Format_keys_step [of cfg ?sb0 ?k1 "''file''" "''bin_t''" binLine "[?k1, ?k2]"]
      tc1 pl1 pm1 by simp
  have f2: "Format_keys cfg (?sb0\<lparr>policyBuilder := headerLine @ binLine\<rparr>) [?k1, ?k2] =
      Format_keys cfg (?sb0\<lparr>policyBuilder := headerLine @ binLine @ binLine\<rparr>) [?k2]"
    using Format_keys_step [of cfg "?sb0\<lparr>policyBuilder := headerLine @ binLine\<rparr>" ?k1
        "''file''" "''bin_t''" binLine "[?k2]"]
      tc1 pl1 pm1 by simp
  have f3: "Format_keys cfg (?sb0\<lparr>policyBuilder := headerLine @ binLine @ binLine\<rparr>) [?k2] =
      Format_keys cfg
        (?sb0\<lparr>policyBuilder := headerLine @ binLine @ binLine @ usageLine\<rparr>) []"
    using Format_keys_step [of cfg "?sb0\<lparr>policyBuilder := headerLine @ binLine @ binLine\<rparr>"
        ?k2 "''file''" "''my_usage_t''" usageLine "[]"]
      tc2 pl2 pm2 by simp
  have "Format cfg (snd (AddAvcList (newSeProfileBuilder ''my_usage_t'') ?avcs)) =
      Format_keys cfg ?sb0 [?k1, ?k1, ?k2]"
    by (simp only: st Format_fresh so)
  also note f1
  also note f2
  also note f3
  also have "Format_keys cfg
      (?sb0\<lparr>policyBuilder := headerLine @ binLine @ binLine @ usageLine\<rparr>) [] =
      (Inr (headerLine @ binLine @ binLine @ usageLine),
       ?sb0\<lparr>policyBuilder := headerLine @ binLine @ binLine @ usageLine\<rparr>)"
    by simp
  finally show "fst (Format cfg (snd (AddAvcList (newSeProfileBuilder ''my_usage_t'') ?avcs))) =
      Inr (headerLine @ binLine @ binLine @ usageLine)"
    by (simp only: fst_conv)
qed

lemma policyLine_newline:
  "policyLine tc tx val = Inr line \<Longrightarrow> 1 \<le> count_list line (CHR 0x0A)"
  by (auto simp: policyLine_def Let_def split: option.splits if_splits)

lemma writeLineFromKeyVal_newline:
  "writeLineFromKeyVal cfg sb key val = (None, sb1) \<Longrightarrow>
   Suc (count_list (policyBuilder sb) (CHR 0x0A)) \<le> count_list (policyBuilder sb1) (CHR 0x0A)"
  by (auto simp: writeLineFromKeyVal_def split: sum.splits prod.splits if_splits
        dest!: policyLine_newline)

lemma Format_keys_newlines:
  "Format_keys cfg sb ks = (Inr out, sb1) \<Longrightarrow>
   count_list (policyBuilder sb) (CHR 0x0A) + length ks \<le> count_list out (CHR 0x0A)"
proof (induction ks arbitrary: sb)
  case Nil
  then show ?case by auto
next
  case (Cons key rest)
  obtain e sb2 where w: "writeLineFromKeyVal cfg sb key (permMap sb key) = (e, sb2)"
    by (cases "writeLineFromKeyVal cfg sb key (permMap sb key)")
  show ?case
  proof (cases e)
    case None
    with Cons.prems w have "Format_keys cfg sb2 rest = (Inr out, sb1)" by simp
    then have "count_list (policyBuilder sb2) (CHR 0x0A) + length rest \<le>
        count_list out (CHR 0x0A)" by (rule Cons.IH)
    moreover have "Suc (count_list (policyBuilder sb) (CHR 0x0A)) \<le>
        count_list (policyBuilder sb2) (CHR 0x0A)"
      using w None by (intro writeLineFromKeyVal_newline) simp
    ultimately show ?thesis by simp
  next
    case (Some err)
    with Cons.prems w show ?thesis by simp
  qed
qed

text \<open>
  Every accepted AVC contributes a line of its own: the policy has a line feed for the
  header and at least one for each AVC. Three accepted AVCs therefore never give a policy
  of two lines, whatever their target contexts are.
\<close>

lemma one_line_per_avc:
  assumes "fst (AddAvcList (newSeProfileBuilder u) avcs) = None"
    and "fst (Format cfg (snd (AddAvcList (newSeProfileBuilder u) avcs))) = Inr out"
  shows "Suc (length avcs) \<le> count_list out (CHR 0x0A)"
proof -
  have wf: "\<forall>a \<in> set avcs. 3 \<le> length (Split (Tcontext a) (CHR '':''))"
    using assms(1) by (simp add: AddAvcList_error split: if_splits)
  let ?sb = "\<lparr>permMap = addPerms Map.empty avcs, keys = sort (map avcKey avcs),
      usageCtx = u, policyBuilder = headerLine\<rparr>"
  have st: "snd (AddAvcList (newSeProfileBuilder u) avcs) =
      \<lparr>permMap = addPerms Map.empty avcs, keys = map avcKey avcs, usageCtx = u,
       policyBuilder = []\<rparr>"
    using AddAvcList_state [OF wf, of "newSeProfileBuilder u"]
    by (simp add: newSeProfileBuilder_def)
  obtain sb1 where "Format_keys cfg ?sb (sort (map avcKey avcs)) = (Inr out, sb1)"
    using assms(2) unfolding st Format_fresh
    by (cases "Format_keys cfg ?sb (sort (map avcKey avcs))") simp
  from Format_keys_newlines [OF this] show ?thesis
    by (simp add: headerLine_def)
qed

lemma three_avcs_never_two_lines:
  assumes "length avcs = 3" and "fst (AddAvcList (newSeProfileBuilder u) avcs) = None"
  shows "fst (Format cfg (snd (AddAvcList (newSeProfileBuilder u) avcs))) \<noteq>
    Inr (headerLine @ binLine @ usageLine)"
proof
  assume "fst (Format cfg (snd (AddAvcList (newSeProfileBuilder u) avcs))) =
    Inr (headerLine @ binLine @ usageLine)"
  from one_line_per_avc [OF assms(2) this] assms(1) show False
    by (simp add: headerLine_def binLine_def usageLine_def)
qed

lemma example_sentinel:
  "CHR '':'' \<notin> set ''selinuxrecording.process''"
  "CHR '' '' \<notin> set ''selinuxrecording.process''"
  "''bin_t'' < ''selinuxrecording.process''"
  "SelinuxPermissiveProfile exampleConfig = ''selinuxrecording.process''"
  by (simp_all add: exampleConfig_def)

theorem policy_builder_deterministic_witness:
  "mset (scenarioAvcs ''system_u:system_r:selinuxrecording.process:s0'') =
     mset (rev (scenarioAvcs ''system_u:system_r:selinuxrecording.process:s0'')) \<and>
   fst (AddAvcList (newSeProfileBuilder ''my_usage_t'')
     (scenarioAvcs ''system_u:system_r:selinuxrecording.process:s0'')) = None \<and>
   fst (Format exampleConfig (snd (AddAvcList (newSeProfileBuilder ''my_usage_t'')
     (rev (scenarioAvcs ''system_u:system_r:selinuxrecording.process:s0''))))) =
     Inr (headerLine @ binLine @ binLine @ usageLine) \<and>
   formatSelinuxProfile exampleConfig quietWorld (SelinuxProfileObject ''default'' ''prof'')
     (scenarioAvcs ''system_u:system_r:selinuxrecording.process:s0'') =
   formatSelinuxProfile exampleConfig quietWorld (SelinuxProfileObject ''default'' ''prof'')
     (rev (scenarioAvcs ''system_u:system_r:selinuxrecording.process:s0''))"
proof -
  let ?A = "scenarioAvcs ''system_u:system_r:selinuxrecording.process:s0''"
  have m: "mset ?A = mset (rev ?A)" by simp
  have a: "fst (AddAvcList (newSeProfileBuilder ''my_usage_t'') ?A) = None"
    using scenario_policy(1) [OF example_sentinel] by simp
  have f: "fst (Format exampleConfig (snd (AddAvcList (newSeProfileBuilder ''my_usage_t'') ?A))) =
      Inr (headerLine @ binLine @ binLine @ usageLine)"
    using scenario_policy(2) [OF example_sentinel] by simp
  from policy_builder_deterministic [OF m, of exampleConfig quietWorld
      "SelinuxProfileObject ''default'' ''prof''" "''my_usage_t''"] a f
  have "fst (Format exampleConfig (snd (AddAvcList (newSeProfileBuilder ''my_usage_t'')
        (rev ?A)))) = Inr (headerLine @ binLine @ binLine @ usageLine) \<and>
      formatSelinuxProfile exampleConfig quietWorld (SelinuxProfileObject ''default'' ''prof'') ?A =
      formatSelinuxProfile exampleConfig quietWorld (SelinuxProfileObject ''default'' ''prof'')
        (rev ?A)"
    by simp
  with m a show ?thesis by blast
qed

text \<open>
  C1. The scenario on the code. Let the sentinel contain neither colon nor space and sort
  after \<open>bin_t\<close>. For the usage context \<open>my_usage_t\<close> and the three AVCs of the
  scenario, the third with a target context whose type is the sentinel, all AVCs are
  accepted, and the policy is the header line followed by three lines, not two: the line
  for \<open>bin_t\<close> with the permissions \<open>execute read\<close> twice, then the line for
  \<open>my_usage_t\<close> with the permission \<open>write\<close>. The permissions of the two AVCs on
  \<open>bin_t\<close> are gathered in one set, but \<open>addAvc\<close> appends the key for each of them,
  and \<open>Format\<close> writes a line for every element of \<open>keys\<close>. The policy therefore
  differs from the one the scenario expects.
\<close>

theorem policy_scenario_duplicate_line:
  "CHR '':'' \<notin> set p \<Longrightarrow> CHR '' '' \<notin> set p \<Longrightarrow> ''bin_t'' < p \<Longrightarrow>
   SelinuxPermissiveProfile cfg = p \<Longrightarrow>
   fst (AddAvcList (newSeProfileBuilder ''my_usage_t'')
     (scenarioAvcs (''system_u:system_r:'' @ p @ '':s0''))) = None \<and>
   keys (snd (AddAvcList (newSeProfileBuilder ''my_usage_t'')
     (scenarioAvcs (''system_u:system_r:'' @ p @ '':s0'')))) =
     [''file bin_t'', ''file bin_t'', ''file '' @ p] \<and>
   fst (Format cfg (snd (AddAvcList (newSeProfileBuilder ''my_usage_t'')
     (scenarioAvcs (''system_u:system_r:'' @ p @ '':s0''))))) =
     Inr (headerLine @ binLine @ binLine @ usageLine) \<and>
   fst (Format cfg (snd (AddAvcList (newSeProfileBuilder ''my_usage_t'')
     (scenarioAvcs (''system_u:system_r:'' @ p @ '':s0''))))) \<noteq>
     Inr (headerLine @ binLine @ usageLine)"
proof -
  assume h: "CHR '':'' \<notin> set p" "CHR '' '' \<notin> set p" "''bin_t'' < p"
    "SelinuxPermissiveProfile cfg = p"
  let ?run = "AddAvcList (newSeProfileBuilder ''my_usage_t'')
      (scenarioAvcs (''system_u:system_r:'' @ p @ '':s0''))"
  have a: "fst ?run = None"
    by (simp only: scenario_policy(1) [OF h] fst_conv)
  have k: "keys (snd ?run) = [''file bin_t'', ''file bin_t'', ''file '' @ p]"
    by (simp only: scenario_policy(1) [OF h] snd_conv seProfileBuilder.simps)
  have f: "fst (Format cfg (snd ?run)) = Inr (headerLine @ binLine @ binLine @ usageLine)"
    by (rule scenario_policy(2) [OF h])
  have d: "headerLine @ binLine @ binLine @ usageLine \<noteq> headerLine @ binLine @ usageLine"
    by (simp add: binLine_def usageLine_def)
  from f d have n: "fst (Format cfg (snd ?run)) \<noteq> Inr (headerLine @ binLine @ usageLine)"
    by simp
  from a k f n show ?thesis by blast
qed

theorem policy_scenario_duplicate_line_witness:
  "CHR '':'' \<notin> set ''selinuxrecording.process'' \<and>
   CHR '' '' \<notin> set ''selinuxrecording.process'' \<and>
   ''bin_t'' < ''selinuxrecording.process'' \<and>
   SelinuxPermissiveProfile exampleConfig = ''selinuxrecording.process'' \<and>
   fst (AddAvcList (newSeProfileBuilder ''my_usage_t'')
     (scenarioAvcs (''system_u:system_r:'' @ ''selinuxrecording.process'' @ '':s0''))) = None \<and>
   fst (Format exampleConfig (snd (AddAvcList (newSeProfileBuilder ''my_usage_t'')
     (scenarioAvcs (''system_u:system_r:'' @ ''selinuxrecording.process'' @ '':s0''))))) =
     Inr (headerLine @ binLine @ binLine @ usageLine)"
  using example_sentinel policy_scenario_duplicate_line [OF example_sentinel]
  by (intro conjI) blast+

end
